theory Spec2Isabelle
  imports Complex_Main
begin

section \<open>ombt: the streaming statistic and the test-run coordinator of rpcclient.py\<close>

text \<open>
  The development embeds \<^verbatim>\<open>src/ombt/rpcclient.py\<close>. Python numbers (the
  samples are floats, the counters are ints) are modelled by exact arithmetic: a
  sample is a \<open>real\<close>, a counter an \<open>int\<close>. Rounding of IEEE doubles is not
  modelled; every concrete input used below consists of small integers, on which
  double arithmetic is exact for the fields compared.

  Two exceptions of the code have no counterpart in exact arithmetic. The
  argument of \<open>math.sqrt\<close> in \<open>Stats._update\<close> is a difference of rounded
  quotients and can round below zero although the exact value is zero or more
  (three samples of 0.1 do it), so the code can raise \<open>ValueError\<close> where the
  model does not; and \<open>value**2\<close> on a float raises \<open>OverflowError\<close> beyond
  the range of doubles. (The float power goes through the C library and is not
  even correctly rounded, so it has no closed description to embed.) Therefore
  no general statement about the handler or the minion loop below concludes
  that a \<open>Stats\<close> call returns: where a statement needs it, it is a
  hypothesis. The
  lemmas that do prove it are facts of exact arithmetic and are marked so.

  A method that mutates \<open>self\<close> and may raise is a function from the object to
  the pair of the object as the call leaves it and the exception raised, if any
  (\<open>None\<close>: the call returned). The assignments made before a raise stay made,
  as they do in Python.
\<close>

subsection \<open>Exceptions\<close>

datatype error =
    ZeroDivisionError
  | ValueError
  | TypeError
  | NameError
  | KeyError
  | AttributeError
  | OperationFailure

subsection \<open>class Stats\<close>

text \<open>
  The attributes of a \<open>Stats\<close> object. \<open>min\<close> and \<open>max\<close> clash with the HOL
  constants and carry a suffix; \<open>_sum_of_squares\<close> loses its underscore.
  An attribute that holds \<open>None\<close> or a number is a \<open>real option\<close>.
\<close>

record stats =
  min_v :: "real option"
  max_v :: "real option"
  total :: real
  count :: int
  average :: "real option"
  std_deviation :: "real option"
  sum_of_squares :: real

text \<open>\<open>Stats.__init__\<close>.\<close>

definition Stats_init :: stats where
  "Stats_init =
     \<lparr> min_v = None, max_v = None, total = 0, count = 0,
       average = None, std_deviation = None, sum_of_squares = 0 \<rparr>"

text \<open>
  Python's \<open>x or y\<close> where \<open>x\<close> is \<open>None\<close> or a number and \<open>y\<close> a number:
  \<open>None\<close> and zero are falsy, so \<open>y\<close> is the result for both.
\<close>

definition py_or :: "real option \<Rightarrow> real \<Rightarrow> real" where
  "py_or x y = (case x of None \<Rightarrow> y | Some v \<Rightarrow> if v = 0 then y else v)"

text \<open>
  Python's \<open>not self.m or v < self.m\<close> (with \<open>>\<close> for the maximum): the
  comparison is evaluated only when the attribute is truthy.
\<close>

definition falsy_or_less :: "real option \<Rightarrow> real \<Rightarrow> bool" where
  "falsy_or_less m v = (case m of None \<Rightarrow> True | Some w \<Rightarrow> w = 0 \<or> v < w)"

definition falsy_or_greater :: "real option \<Rightarrow> real \<Rightarrow> bool" where
  "falsy_or_greater m v = (case m of None \<Rightarrow> True | Some w \<Rightarrow> w = 0 \<or> v > w)"

text \<open>
  \<open>Stats._update(self, value, min_value=None, max_value=None, count=1, squared=None)\<close>,
  statement by statement. \<open>self.total / n\<close> raises \<open>ZeroDivisionError\<close> when
  \<open>n = float(self.count)\<close> is zero, and \<open>math.sqrt\<close> raises \<open>ValueError\<close> on
  a negative argument; in both cases the attributes assigned so far keep their new
  values.
\<close>

definition Stats_private_update ::
  "stats \<Rightarrow> real \<Rightarrow> real option \<Rightarrow> real option \<Rightarrow> int \<Rightarrow> real option \<Rightarrow> stats \<times> error option"
where
  "Stats_private_update self val min_value max_value cnt squared =
     (let min_value = py_or min_value val;
          max_value = py_or max_value val;
          squared = py_or squared (val ^ 2);
          self = (if falsy_or_less (min_v self) min_value
                  then self\<lparr>min_v := Some min_value\<rparr> else self);
          self = (if falsy_or_greater (max_v self) max_value
                  then self\<lparr>max_v := Some max_value\<rparr> else self);
          self = self\<lparr>total := total self + val\<rparr>;
          self = self\<lparr>count := count self + cnt\<rparr>;
          self = self\<lparr>sum_of_squares := sum_of_squares self + squared\<rparr>;
          n = real_of_int (count self)
      in if n = 0 then (self, Some ZeroDivisionError)
         else
           let self = self\<lparr>average := Some (total self / n)\<rparr>;
               radicand = sum_of_squares self / n - (total self / n) ^ 2
           in if radicand < 0 then (self, Some ValueError)
              else (self\<lparr>std_deviation := Some (sqrt radicand)\<rparr>, None))"

text \<open>\<open>Stats.update(self, value)\<close>.\<close>

definition Stats_update :: "stats \<Rightarrow> real \<Rightarrow> stats \<times> error option" where
  "Stats_update self val = Stats_private_update self val None None 1 None"

text \<open>\<open>Stats.merge(self, stats)\<close>.\<close>

definition Stats_merge :: "stats \<Rightarrow> stats \<Rightarrow> stats \<times> error option" where
  "Stats_merge self other =
     Stats_private_update self (total other) (min_v other) (max_v other) (count other)
       (Some (sum_of_squares other))"

text \<open>
  A caller that feeds a sequence of samples to \<open>update\<close> one by one, as the
  minion loops do; the first exception ends the sequence.
\<close>

fun Stats_update_all :: "stats \<Rightarrow> real list \<Rightarrow> stats \<times> error option" where
  "Stats_update_all self [] = (self, None)"
| "Stats_update_all self (x # xs) =
     (case Stats_update self x of
        (s, None) \<Rightarrow> Stats_update_all s xs
      | (s, Some e) \<Rightarrow> (s, Some e))"

text \<open>
  \<open>Stats.__str__\<close>: \<open>"min=%i, max=%i, avg=%f, std-dev=%f"\<close>. The text is kept
  as the four numbers it is formatted from: \<open>%i\<close> truncates towards zero, and
  either conversion raises \<open>TypeError\<close> on \<open>None\<close>.
\<close>

definition py_int :: "real \<Rightarrow> int" where
  "py_int x = (if 0 \<le> x then \<lfloor>x\<rfloor> else \<lceil>x\<rceil>)"

definition Stats_str :: "stats \<Rightarrow> error + (int \<times> int \<times> real \<times> real)" where
  "Stats_str self =
     (case (min_v self, max_v self, average self, std_deviation self) of
        (Some a, Some b, Some c, Some d) \<Rightarrow> Inr (py_int a, py_int b, c, d)
      | _ \<Rightarrow> Inl TypeError)"

subsection \<open>The role registry: class \_Controller\<close>

definition RPC_CLIENT :: string where
  "RPC_CLIENT = ''RPCClient''"

definition NOTIFIER :: string where
  "NOTIFIER = ''Notifier''"

text \<open>
  The attributes of \<open>RPCController\<close> and of \<open>NotifyController\<close> that the test
  run reads or writes. \<open>_done\<close> is a \<open>threading.Event\<close>, kept as its flag.
  \<open>_result_count\<close> is not assigned by either constructor: it exists only once a
  run has been dispatched, so it is optional here.
\<close>

record controller =
  minions :: "string \<rightharpoonup> int"
  total_minions :: int
  throughput :: stats
  latency :: stats
  done_ev :: bool
  timeout :: "int option"
  result_count :: "int option"

text \<open>\<open>_Controller.client_pong(self, ctxt, kind)\<close>.\<close>

definition client_pong :: "controller \<Rightarrow> string \<Rightarrow> controller" where
  "client_pong self kind =
     (let self = (if minions self kind = None
                  then self\<lparr>minions := (minions self)(kind \<mapsto> 0)\<rparr> else self);
          self = self\<lparr>minions := (minions self)(kind \<mapsto> the (minions self kind) + 1)\<rparr>
      in self\<lparr>total_minions := total_minions self + 1\<rparr>)"

text \<open>
  \<open>RPCController.__init__\<close> and \<open>NotifyController.__init__\<close> (the same
  assignments): the registry starts empty, the pongs that arrive during the
  discovery sleep of \<open>_Controller.__init__\<close> are counted, then the two aggregates
  are created empty and the event clear. \<open>kinds\<close> lists the pongs of the
  discovery window in their order of arrival.
\<close>

definition Controller_init :: "int option \<Rightarrow> string list \<Rightarrow> controller" where
  "Controller_init tmo kinds =
     foldl client_pong
       \<lparr> minions = Map.empty, total_minions = 0, throughput = Stats_init,
         latency = Stats_init, done_ev = False, timeout = tmo, result_count = None \<rparr>
       kinds"

subsection \<open>Reports and the handler client\_result\<close>

text \<open>
  The \<open>results\<close> dictionary a minion sends: \<open>{'latency': latency.__dict__,
  'throughput': ..., 'calls': ...}\<close>. \<open>l = Stats(); l.__dict__.update(results['latency'])\<close>
  rebuilds the minion's \<open>Stats\<close>, so the latency entry is kept as a \<open>stats\<close>.
\<close>

record report =
  r_latency :: stats
  r_throughput :: real
  r_calls :: int

text \<open>
  \<open>RPCController.client_result\<close> and \<open>NotifyController.client_result\<close>: the
  two bodies differ only in the registry key (\<open>RPC_CLIENT\<close>, \<open>NOTIFIER\<close>), the
  parameter \<open>role\<close> here. Reading \<open>self._result_count\<close> before any run raises
  \<open>AttributeError\<close>; \<open>self._minions[role]\<close> raises \<open>KeyError\<close> on a
  missing key. The \<open>logging.debug\<close> call has no effect on the object beyond
  that lookup.
\<close>

definition client_result :: "string \<Rightarrow> controller \<Rightarrow> report \<Rightarrow> controller \<times> error option" where
  "client_result role self results =
     (case result_count self of
        None \<Rightarrow> (self, Some AttributeError)
      | Some c \<Rightarrow>
          let self = self\<lparr>result_count := Some (c + 1)\<rparr>;
              t = r_throughput results;
              (tp, e1) = Stats_update (throughput self) t;
              self = self\<lparr>throughput := tp\<rparr>
          in case e1 of
               Some e \<Rightarrow> (self, Some e)
             | None \<Rightarrow>
                 let l = r_latency results;
                     (lt, e2) = Stats_merge (latency self) l;
                     self = self\<lparr>latency := lt\<rparr>
                 in case e2 of
                      Some e \<Rightarrow> (self, Some e)
                    | None \<Rightarrow>
                        (case minions self role of
                           None \<Rightarrow> (self, Some KeyError)
                         | Some m \<Rightarrow>
                             (if c + 1 = m then self\<lparr>done_ev := True\<rparr> else self, None)))"

definition RPCController_client_result :: "controller \<Rightarrow> report \<Rightarrow> controller \<times> error option" where
  "RPCController_client_result = client_result RPC_CLIENT"

definition NotifyController_client_result :: "controller \<Rightarrow> report \<Rightarrow> controller \<times> error option" where
  "NotifyController_client_result = client_result NOTIFIER"

subsection \<open>The test run\<close>

text \<open>
  What the controller's RPC server delivers while \<open>_run_test\<close> waits: a pong
  or a report. Handlers run one at a time. The server, not the handler's caller,
  receives an exception a handler raises, so the object keeps the state the
  handler left and the next message is delivered.
\<close>

datatype event = Pong string | Result report

definition deliver :: "string \<Rightarrow> controller \<Rightarrow> event \<Rightarrow> controller" where
  "deliver role self ev =
     (case ev of
        Pong kind \<Rightarrow> client_pong self kind
      | Result r \<Rightarrow> fst (client_result role self r))"

text \<open>
  \<open>self._done.wait(self._timeout)\<close> against the messages \<open>evs\<close> that arrive
  while the caller waits (up to the deadline when there is one). The wait ends
  at the first moment the flag is set and returns \<open>True\<close>; when the messages
  run out with the flag clear it returns \<open>False\<close> at the deadline, and with no
  timeout it never returns (\<open>None\<close>).
\<close>

fun Event_wait ::
  "string \<Rightarrow> int option \<Rightarrow> controller \<Rightarrow> event list \<Rightarrow> controller \<times> bool option" where
  "Event_wait role tmo self [] =
     (self, if done_ev self then Some True
            else (case tmo of None \<Rightarrow> None | Some t \<Rightarrow> Some False))"
| "Event_wait role tmo self (ev # evs) =
     (if done_ev self then (self, Some True)
      else Event_wait role tmo (deliver role self ev) evs)"

text \<open>A broadcast test request: method name, count, data, severity (notify only), verbose.\<close>

datatype message = TestRequest string int string "string option" bool

text \<open>What \<open>print\<close> wrote, one entry per call.\<close>

datatype out_line =
    Line string
  | LatencyLine "int \<times> int \<times> real \<times> real"
  | ThroughputLine "int \<times> int \<times> real \<times> real"
  | AveragedOver int

text \<open>
  How a call ends: it returns a value (\<open>None\<close> when the body falls off its
  end), it raises, or it never returns (a \<open>wait\<close> with no timeout on an event
  that is never set).
\<close>

datatype outcome = Returned "int option" | Raised error | Blocked

record run_result =
  ctl :: controller
  printed :: "out_line list"
  casts :: "message list"
  outcome :: outcome

text \<open>\<open>_print_stats\<close> (the same in both controllers).\<close>

definition print_stats :: "controller \<Rightarrow> out_line list \<times> error option" where
  "print_stats self =
     (case Stats_str (latency self) of
        Inl e \<Rightarrow> ([Line [CHR 0x0A]], Some e)
      | Inr l \<Rightarrow>
          (case Stats_str (throughput self) of
             Inl e \<Rightarrow> ([Line [CHR 0x0A], LatencyLine l], Some e)
           | Inr t \<Rightarrow>
               (case result_count self of
                  None \<Rightarrow> ([Line [CHR 0x0A], LatencyLine l, ThroughputLine t], Some AttributeError)
                | Some c \<Rightarrow>
                    ([Line [CHR 0x0A], LatencyLine l, ThroughputLine t, AveragedOver c], None))))"

text \<open>
  The statements of \<open>RPCController._run_test\<close> between the guard and the wait:
  \<open>self._result_count = 0\<close>, \<open>self._done.clear()\<close> and the cast.
\<close>

definition RPCController_dispatch ::
  "controller \<Rightarrow> string \<Rightarrow> int \<Rightarrow> string \<Rightarrow> bool \<Rightarrow> controller \<times> message list" where
  "RPCController_dispatch self meth cnt data verbose =
     (let self = self\<lparr>result_count := Some 0\<rparr>;
          self = self\<lparr>done_ev := False\<rparr>
      in (self, [TestRequest meth cnt data None verbose]))"

text \<open>\<open>RPCController._run_test(self, meth, count, data, verbose)\<close>.\<close>

definition RPCController_run_test ::
  "controller \<Rightarrow> string \<Rightarrow> int \<Rightarrow> string \<Rightarrow> bool \<Rightarrow> event list \<Rightarrow> run_result" where
  "RPCController_run_test self meth cnt data verbose evs =
     (if minions self RPC_CLIENT = None \<or> minions self RPC_CLIENT = Some 0
      then \<lparr> ctl = self, printed = [Line ''No RPC clients visible''], casts = [],
             outcome = Returned (Some (- 1)) \<rparr>
      else
        let (self, sent) = RPCController_dispatch self meth cnt data verbose;
            (self, woke) = Event_wait RPC_CLIENT (timeout self) self evs
        in case woke of
             None \<Rightarrow> \<lparr> ctl = self, printed = [], casts = sent, outcome = Blocked \<rparr>
           | Some False \<Rightarrow>
               \<lparr> ctl = self, printed = [Line (meth @ '' test timed out!'')], casts = sent,
                 outcome = Returned None \<rparr>
           | Some True \<Rightarrow>
               (case print_stats self of
                  (ls, None) \<Rightarrow>
                    \<lparr> ctl = self, printed = ls, casts = sent, outcome = Returned None \<rparr>
                | (ls, Some e) \<Rightarrow>
                    \<lparr> ctl = self, printed = ls, casts = sent, outcome = Raised e \<rparr>))"

text \<open>
  The same statements of \<open>NotifyController.run_notification_test\<close>; the cast
  names \<open>test_notify\<close> and carries the severity.
\<close>

definition NotifyController_dispatch ::
  "controller \<Rightarrow> int \<Rightarrow> string \<Rightarrow> string \<Rightarrow> bool \<Rightarrow> controller \<times> message list" where
  "NotifyController_dispatch self cnt data severity verbose =
     (let self = self\<lparr>result_count := Some 0\<rparr>;
          self = self\<lparr>done_ev := False\<rparr>
      in (self, [TestRequest ''test_notify'' cnt data (Some severity) verbose]))"

text \<open>
  \<open>NotifyController.run_notification_test(self, count, data, severity, verbose)\<close>.
  Its timeout branch formats the message with \<open>meth\<close>, which is neither a
  parameter nor a local nor a global of the module: evaluating the name raises
  \<open>NameError\<close> before \<open>print\<close> is called.
\<close>

definition NotifyController_run_notification_test ::
  "controller \<Rightarrow> int \<Rightarrow> string \<Rightarrow> string \<Rightarrow> bool \<Rightarrow> event list \<Rightarrow> run_result" where
  "NotifyController_run_notification_test self cnt data severity verbose evs =
     (if minions self NOTIFIER = None \<or> minions self NOTIFIER = Some 0
      then \<lparr> ctl = self, printed = [Line ''No notifier clients visible''], casts = [],
             outcome = Returned (Some (- 1)) \<rparr>
      else
        let (self, sent) = NotifyController_dispatch self cnt data severity verbose;
            (self, woke) = Event_wait NOTIFIER (timeout self) self evs
        in case woke of
             None \<Rightarrow> \<lparr> ctl = self, printed = [], casts = sent, outcome = Blocked \<rparr>
           | Some False \<Rightarrow>
               \<lparr> ctl = self, printed = [], casts = sent, outcome = Raised NameError \<rparr>
           | Some True \<Rightarrow>
               (case print_stats self of
                  (ls, None) \<Rightarrow>
                    \<lparr> ctl = self, printed = ls, casts = sent, outcome = Returned None \<rparr>
                | (ls, Some e) \<Rightarrow>
                    \<lparr> ctl = self, printed = ls, casts = sent, outcome = Raised e \<rparr>))"

subsection \<open>The minion test loop\<close>




section \<open>Notions used in the statements\<close>

text \<open>
  The relation between \<open>count\<close>, \<open>total\<close> and \<open>_sum_of_squares\<close> that
  every \<open>Stats\<close> built by \<open>update\<close> and \<open>merge\<close> from an empty one
  satisfies: the count is not negative and the variance term is not negative.
\<close>

definition consistent :: "stats \<Rightarrow> bool" where
  "consistent s =
     (0 \<le> count s \<and> 0 \<le> sum_of_squares s \<and>
      (total s)\<^sup>2 \<le> real_of_int (count s) * sum_of_squares s)"

text \<open>
  The statistic of a non-empty sample list as section 3 of the specification
  describes it:
  smallest and largest sample, their number, their sum, the sum of their
  squares, and the two derived fields.
\<close>

definition ideal :: "real list \<Rightarrow> stats" where
  "ideal xs =
     \<lparr> min_v = Some (Min (set xs)),
       max_v = Some (Max (set xs)),
       total = sum_list xs,
       count = int (length xs),
       average = Some (sum_list xs / real (length xs)),
       std_deviation =
         Some (sqrt ((\<Sum>x\<leftarrow>xs. x\<^sup>2) / real (length xs) - (sum_list xs / real (length xs))\<^sup>2)),
       sum_of_squares = (\<Sum>x\<leftarrow>xs. x\<^sup>2) \<rparr>"

text \<open>
  A report of one minion that ran one operation lasting one millisecond and
  measured the throughput \<open>t\<close>.
\<close>

definition unit_report :: "real \<Rightarrow> report" where
  "unit_report t =
     \<lparr> r_latency = \<lparr> min_v = Some 1, max_v = Some 1, total = 1, count = 1, average = Some 1,
                      std_deviation = Some 0, sum_of_squares = 1 \<rparr>,
       r_throughput = t, r_calls = 1 \<rparr>"

text \<open>
  A report whose latency statistic was never updated. No minion loop sends one
  (each updates before it reports); the handler accepts any dictionary.
\<close>

definition malformed_report :: report where
  "malformed_report = \<lparr> r_latency = Stats_init, r_throughput = 100, r_calls = 0 \<rparr>"

text \<open>
  Two runs on one controller that saw one RPC client, each answered by one
  report.
\<close>

definition first_run :: run_result where
  "first_run =
     RPCController_run_test (Controller_init (Some 5) [RPC_CLIENT]) ''test_call'' 1 ''X'' False
       [Result (unit_report 100)]"

definition second_run :: run_result where
  "second_run =
     RPCController_run_test (ctl first_run) ''test_call'' 1 ''X'' False
       [Result (unit_report 300)]"



text \<open>
  Of the messages \<open>evs\<close> delivered to a controller in state \<open>self\<close>, no
  report leaves the received count equal to the number of minions registered
  for the role when the report is handled.
\<close>

fun never_equal :: "string \<Rightarrow> controller \<Rightarrow> event list \<Rightarrow> bool" where
  "never_equal role self [] = True"
| "never_equal role self (Pong kind # evs) =
     never_equal role (deliver role self (Pong kind)) evs"
| "never_equal role self (Result r # evs) =
     (result_count (deliver role self (Result r)) \<noteq> minions self role
      \<and> never_equal role (deliver role self (Result r)) evs)"

section \<open>Properties of Stats\<close>

text \<open>
  Claim C9. Merging a never-updated \<open>Stats\<close> into a never-updated \<open>Stats\<close>
  reaches \<open>self.total / n\<close> with \<open>n = 0.0\<close>: the call raises
  \<open>ZeroDivisionError\<close>. At the raise \<open>min\<close> and \<open>max\<close> have already been
  set to zero, and \<open>average\<close> and \<open>std_deviation\<close> are still \<open>None\<close>.
\<close>

theorem merge_empty_into_empty_raises:
  "Stats_merge Stats_init Stats_init =
     (Stats_init\<lparr>min_v := Some 0, max_v := Some 0\<rparr>, Some ZeroDivisionError)"
  by (simp add: Stats_merge_def Stats_private_update_def Stats_init_def py_or_def
      falsy_or_less_def falsy_or_greater_def)

subsection \<open>In exact arithmetic neither exception is raised on consistent statistics\<close>

text \<open>
  The lemmas of this subsection and the next hold for the exact arithmetic of
  the model only; under rounding the argument of the square root can be
  negative for the same inputs.
\<close>

lemma square_sum_bound:
  fixes n1 n2 T1 T2 Q1 Q2 :: real
  assumes "0 \<le> n1" "0 \<le> n2" "0 \<le> Q1" "0 \<le> Q2" "T1^2 \<le> n1 * Q1" "T2^2 \<le> n2 * Q2"
  shows "(T1 + T2)^2 \<le> (n1 + n2) * (Q1 + Q2)"
proof -
  have "(2 * T1 * T2)^2 = 4 * (T1^2 * T2^2)" by (simp add: power2_eq_square)
  also have "\<dots> \<le> 4 * ((n1 * Q1) * (n2 * Q2))"
    using assms by (intro mult_left_mono mult_mono) auto
  also have "\<dots> \<le> (n1 * Q2 + n2 * Q1)^2"
  proof -
    have "0 \<le> (n1 * Q2 - n2 * Q1)^2" by simp
    then show ?thesis by (simp add: power2_eq_square algebra_simps)
  qed
  finally have "(2 * T1 * T2)^2 \<le> (n1 * Q2 + n2 * Q1)^2" .
  moreover have "0 \<le> n1 * Q2 + n2 * Q1" using assms by simp
  ultimately have "2 * T1 * T2 \<le> n1 * Q2 + n2 * Q1"
    by (rule power2_le_imp_le)
  then show ?thesis using assms(5,6) by (simp add: power2_eq_square algebra_simps)
qed

lemma radicand_nonneg:
  fixes n T Q :: real
  assumes "0 < n" "T^2 \<le> n * Q"
  shows "\<not> Q / n - (T / n)^2 < 0"
proof -
  have "(T / n)^2 = T^2 / (n * n)" by (simp add: power2_eq_square)
  also have "\<dots> \<le> (n * Q) / (n * n)"
    using assms by (intro divide_right_mono) auto
  also have "\<dots> = Q / n" using assms by simp
  finally show ?thesis by simp
qed

text \<open>What \<open>_update\<close> does when neither exception is raised.\<close>

lemma private_update_returns:
  assumes "0 < count self + cnt"
    and "(total self + val)\<^sup>2 \<le> real_of_int (count self + cnt) * (sum_of_squares self + py_or squared (val\<^sup>2))"
  shows "Stats_private_update self val min_value max_value cnt squared =
     (\<lparr> min_v = (if falsy_or_less (min_v self) (py_or min_value val)
                 then Some (py_or min_value val) else min_v self),
        max_v = (if falsy_or_greater (max_v self) (py_or max_value val)
                 then Some (py_or max_value val) else max_v self),
        total = total self + val,
        count = count self + cnt,
        average = Some ((total self + val) / real_of_int (count self + cnt)),
        std_deviation = Some (sqrt ((sum_of_squares self + py_or squared (val\<^sup>2)) / real_of_int (count self + cnt)
                           - ((total self + val) / real_of_int (count self + cnt))\<^sup>2)),
        sum_of_squares = sum_of_squares self + py_or squared (val\<^sup>2) \<rparr>, None)"
proof -
  have n: "0 < real_of_int (count self + cnt)" using assms(1) by simp
  have r: "\<not> (sum_of_squares self + py_or squared (val\<^sup>2)) / real_of_int (count self + cnt)
             - ((total self + val) / real_of_int (count self + cnt))\<^sup>2 < 0"
    by (rule radicand_nonneg [OF n assms(2)])
  show ?thesis
    using n r by (simp add: Stats_private_update_def Let_def)
qed

lemma consistent_init: "consistent Stats_init"
  by (simp add: consistent_def Stats_init_def)

lemma squared_of_consistent:
  assumes "consistent other"
  shows "py_or (Some (sum_of_squares other)) ((total other)\<^sup>2) = sum_of_squares other"
proof (cases "sum_of_squares other = 0")
  case True
  with assms have "(total other)\<^sup>2 \<le> 0" by (simp add: consistent_def)
  then have "(total other)\<^sup>2 = 0" by (simp add: order_antisym)
  with True show ?thesis by (simp add: py_or_def)
next
  case False
  then show ?thesis by (simp add: py_or_def)
qed

lemma update_bound:
  assumes "consistent self"
  shows "(total self + x)\<^sup>2 \<le> real_of_int (count self + 1) * (sum_of_squares self + x\<^sup>2)"
proof -
  have "(total self + x)\<^sup>2 \<le> (real_of_int (count self) + 1) * (sum_of_squares self + x\<^sup>2)"
    using assms by (intro square_sum_bound) (simp_all add: consistent_def)
  then show ?thesis by simp
qed

lemma merge_bound:
  assumes "consistent self" and "consistent other"
  shows "(total self + total other)\<^sup>2
           \<le> real_of_int (count self + count other) * (sum_of_squares self + sum_of_squares other)"
proof -
  have "(total self + total other)\<^sup>2
          \<le> (real_of_int (count self) + real_of_int (count other))
              * (sum_of_squares self + sum_of_squares other)"
    using assms by (intro square_sum_bound) (simp_all add: consistent_def)
  then show ?thesis by simp
qed

lemma update_returns:
  assumes "consistent self"
  shows "Stats_update self x =
     (\<lparr> min_v = (if falsy_or_less (min_v self) x then Some x else min_v self),
        max_v = (if falsy_or_greater (max_v self) x then Some x else max_v self),
        total = total self + x,
        count = count self + 1,
        average = Some ((total self + x) / real_of_int (count self + 1)),
        std_deviation = Some (sqrt ((sum_of_squares self + x\<^sup>2) / real_of_int (count self + 1)
                           - ((total self + x) / real_of_int (count self + 1))\<^sup>2)),
        sum_of_squares = sum_of_squares self + x\<^sup>2 \<rparr>, None)"
proof -
  have c: "0 < count self + 1" using assms by (simp add: consistent_def)
  have b: "(total self + x)\<^sup>2
             \<le> real_of_int (count self + 1) * (sum_of_squares self + py_or None (x\<^sup>2))"
    using update_bound [OF assms, of x] by (simp add: py_or_def)
  show ?thesis
    unfolding Stats_update_def private_update_returns [OF c b]
    by (simp add: py_or_def)
qed

lemma merge_returns:
  assumes "consistent self" and "consistent other" and "0 < count self + count other"
  shows "Stats_merge self other =
     (\<lparr> min_v = (if falsy_or_less (min_v self) (py_or (min_v other) (total other))
                 then Some (py_or (min_v other) (total other)) else min_v self),
        max_v = (if falsy_or_greater (max_v self) (py_or (max_v other) (total other))
                 then Some (py_or (max_v other) (total other)) else max_v self),
        total = total self + total other,
        count = count self + count other,
        average = Some ((total self + total other) / real_of_int (count self + count other)),
        std_deviation =
          Some (sqrt ((sum_of_squares self + sum_of_squares other)
                        / real_of_int (count self + count other)
                      - ((total self + total other) / real_of_int (count self + count other))\<^sup>2)),
        sum_of_squares = sum_of_squares self + sum_of_squares other \<rparr>, None)"
proof -
  note q = squared_of_consistent [OF assms(2)]
  have b: "(total self + total other)\<^sup>2
             \<le> real_of_int (count self + count other)
                 * (sum_of_squares self + py_or (Some (sum_of_squares other)) ((total other)\<^sup>2))"
    using merge_bound [OF assms(1,2)] by (simp only: q)
  show ?thesis
    unfolding Stats_merge_def private_update_returns [OF assms(3) b]
    by (simp only: q)
qed


lemma merge_consistent:
  assumes "consistent self" and "consistent other" and "0 < count self + count other"
  shows "consistent (fst (Stats_merge self other))"
  using assms merge_bound [OF assms(1,2)]
  by (simp add: merge_returns consistent_def)


subsection \<open>Samples without a zero: in exact arithmetic update and merge compute the statistic of the samples\<close>

lemma sum_list_square_bound:
  fixes xs :: "real list"
  shows "(sum_list xs)\<^sup>2 \<le> real (length xs) * (\<Sum>x\<leftarrow>xs. x\<^sup>2)"
proof (induction xs)
  case Nil
  then show ?case by simp
next
  case (Cons x xs)
  have "0 \<le> (\<Sum>y\<leftarrow>xs. y\<^sup>2)" by (rule sum_list_nonneg) auto
  with Cons.IH have "(x + sum_list xs)\<^sup>2 \<le> (1 + real (length xs)) * (x\<^sup>2 + (\<Sum>y\<leftarrow>xs. y\<^sup>2))"
    by (intro square_sum_bound) simp_all
  then show ?case by (simp add: add.commute)
qed

lemma consistent_ideal: "consistent (ideal xs)"
proof -
  have "0 \<le> (\<Sum>y\<leftarrow>xs. y\<^sup>2)" by (rule sum_list_nonneg) auto
  then show ?thesis using sum_list_square_bound [of xs]
    by (simp add: consistent_def ideal_def)
qed

lemma update_init_ideal: "Stats_update Stats_init x = (ideal [x], None)"
  by (simp add: update_returns [OF consistent_init])
     (simp add: Stats_init_def ideal_def falsy_or_less_def falsy_or_greater_def)

lemma Min_nonzero:
  assumes "ys \<noteq> []" and "0 \<notin> set ys"
  shows "Min (set ys) \<noteq> (0::real)" and "Max (set ys) \<noteq> (0::real)"
proof -
  have "Min (set ys) \<in> set ys" using assms(1) by (intro Min_in) auto
  with assms(2) show "Min (set ys) \<noteq> 0" by metis
  have "Max (set ys) \<in> set ys" using assms(1) by (intro Max_in) auto
  with assms(2) show "Max (set ys) \<noteq> 0" by metis
qed

lemma update_ideal:
  assumes "ys \<noteq> []" and "0 \<notin> set ys"
  shows "Stats_update (ideal ys) x = (ideal (ys @ [x]), None)"
proof -
  note nz = Min_nonzero [OF assms]
  have mn: "Min (set (ys @ [x])) = min x (Min (set ys))"
    using assms(1) by (simp add: Min_insert)
  have mx: "Max (set (ys @ [x])) = max x (Max (set ys))"
    using assms(1) by (simp add: Max_insert)
  show ?thesis
    unfolding update_returns [OF consistent_ideal]
    using nz mn mx
    by (auto simp add: ideal_def falsy_or_less_def falsy_or_greater_def min_def max_def
        add.commute)
qed

lemma update_all_ideal_from:
  assumes "ys \<noteq> []" and "0 \<notin> set ys" and "0 \<notin> set xs"
  shows "Stats_update_all (ideal ys) xs = (ideal (ys @ xs), None)"
  using assms
proof (induction xs arbitrary: ys)
  case Nil
  then show ?case by simp
next
  case (Cons x xs)
  have "Stats_update_all (ideal (ys @ [x])) xs = (ideal ((ys @ [x]) @ xs), None)"
    using Cons.prems by (intro Cons.IH) auto
  then show ?case using Cons.prems by (simp add: update_ideal)
qed

lemma update_all_ideal:
  assumes "xs \<noteq> []" and "0 \<notin> set xs"
  shows "Stats_update_all Stats_init xs = (ideal xs, None)"
proof (cases xs)
  case Nil
  with assms show ?thesis by simp
next
  case (Cons x xs')
  have "Stats_update_all (ideal [x]) xs' = (ideal ([x] @ xs'), None)"
    using assms Cons by (intro update_all_ideal_from) auto
  then show ?thesis using Cons by (simp add: update_init_ideal)
qed

lemma merge_ideal:
  assumes "xs \<noteq> []" and "ys \<noteq> []" and "0 \<notin> set xs" and "0 \<notin> set ys"
  shows "Stats_merge (ideal xs) (ideal ys) = (ideal (xs @ ys), None)"
proof -
  note nzx = Min_nonzero [OF assms(1,3)]
  note nzy = Min_nonzero [OF assms(2,4)]
  have c: "0 < count (ideal xs) + count (ideal ys)"
    using assms(1) by (cases xs) (simp_all add: ideal_def)
  have mn: "Min (set (xs @ ys)) = min (Min (set xs)) (Min (set ys))"
    using assms(1,2) by (simp add: Min_Un)
  have mx: "Max (set (xs @ ys)) = max (Max (set xs)) (Max (set ys))"
    using assms(1,2) by (simp add: Max_Un)
  show ?thesis
    unfolding merge_returns [OF consistent_ideal consistent_ideal c]
    using nzx nzy mn mx
    by (auto simp add: ideal_def falsy_or_less_def falsy_or_greater_def py_or_def min_def max_def)
qed

subsection \<open>Splitting a sample sequence and merging the parts\<close>

text \<open>Unfolding the definitions of \<open>Stats\<close> on concrete inputs.\<close>

lemmas stats_eval = Stats_update_def Stats_merge_def Stats_private_update_def Stats_init_def
  py_or_def falsy_or_less_def falsy_or_greater_def power_divide

text \<open>
  Where no sample is zero, merging the statistics of the two parts of a split
  gives exactly what updating sample by sample gives, exceptions included.
\<close>

lemma split_merge_agrees_without_zero:
  assumes "xs \<noteq> []" and "ys \<noteq> []" and "0 \<notin> set xs" and "0 \<notin> set ys"
  shows "Stats_merge (fst (Stats_update_all Stats_init xs)) (fst (Stats_update_all Stats_init ys))
           = Stats_update_all Stats_init (xs @ ys)"
proof -
  have "Stats_update_all Stats_init (xs @ ys) = (ideal (xs @ ys), None)"
    using assms by (intro update_all_ideal) auto
  then show ?thesis
    using assms by (simp add: update_all_ideal merge_ideal)
qed

text \<open>
  Three statistics, each \<open>(min=1, max=1, count=1, total=1, sum_of_squares=1)\<close>,
  merged one after the other into an empty aggregate.
\<close>

lemma three_unit_statistics_merge:
  "Stats_merge
     (fst (Stats_merge (fst (Stats_merge Stats_init (r_latency (unit_report t))))
             (r_latency (unit_report t))))
     (r_latency (unit_report t)) =
     (\<lparr> min_v = Some 1, max_v = Some 1, total = 3, count = 3, average = Some 1,
        std_deviation = Some 0, sum_of_squares = 3 \<rparr>, None)"
  by (simp add: stats_eval unit_report_def)

text \<open>
  Claim C1. Updating sample by sample and merging the statistics of the two
  parts of a split are claimed to agree for every sequence. They do not when a
  sample is zero. For the samples \<open>5, 1, 0\<close> the sample-by-sample statistic has
  \<open>min = 0\<close>. The part \<open>1, 0\<close> has \<open>min = 0\<close> and \<open>total = 1\<close>; merged
  into the statistic of \<open>5\<close>, \<open>stats.min or stats.total\<close> replaces its zero
  minimum by its total, and the merged \<open>min\<close> is \<open>1\<close>. Merged the other way
  round, \<open>not self.min\<close> discards the zero minimum of the receiver, and the
  merged \<open>min\<close> is \<open>5\<close>.
\<close>

theorem split_merge_differs_on_zero_sample:
  "Stats_update_all Stats_init [5, 1, 0] =
     (\<lparr> min_v = Some 0, max_v = Some 5, total = 6, count = 3, average = Some 2,
        std_deviation = Some (sqrt (14 / 3)), sum_of_squares = 26 \<rparr>, None)
   \<and> Stats_merge (fst (Stats_update_all Stats_init [5])) (fst (Stats_update_all Stats_init [1, 0])) =
     (\<lparr> min_v = Some 1, max_v = Some 5, total = 6, count = 3, average = Some 2,
        std_deviation = Some (sqrt (14 / 3)), sum_of_squares = 26 \<rparr>, None)
   \<and> Stats_merge (fst (Stats_update_all Stats_init [1, 0])) (fst (Stats_update_all Stats_init [5])) =
     (\<lparr> min_v = Some 5, max_v = Some 5, total = 6, count = 3, average = Some 2,
        std_deviation = Some (sqrt (14 / 3)), sum_of_squares = 26 \<rparr>, None)"
  by (simp add: stats_eval)

subsection \<open>The invariant min \<open>\<le>\<close> average \<open>\<le>\<close> max\<close>

text \<open>
  The statistic of a non-empty sample list has its average between its minimum
  and its maximum and a count of at least one; by \<open>update_all_ideal\<close> and
  \<open>merge_ideal\<close> this is what \<open>update\<close> and \<open>merge\<close> maintain as long as
  no sample is zero.
\<close>

lemma sum_list_bounds:
  fixes xs :: "real list"
  assumes "xs \<noteq> []"
  shows "real (length xs) * Min (set xs) \<le> sum_list xs"
    and "sum_list xs \<le> real (length xs) * Max (set xs)"
proof -
  have "\<And>x. x \<in> set xs \<Longrightarrow> Min (set xs) \<le> x" by simp
  then have "sum_list (map (\<lambda>_. Min (set xs)) xs) \<le> sum_list (map (\<lambda>x. x) xs)"
    by (intro sum_list_mono) 
  then show "real (length xs) * Min (set xs) \<le> sum_list xs"
    by (simp add: sum_list_replicate map_replicate_const)
  have "\<And>x. x \<in> set xs \<Longrightarrow> x \<le> Max (set xs)" by simp
  then have "sum_list (map (\<lambda>x. x) xs) \<le> sum_list (map (\<lambda>_. Max (set xs)) xs)"
    by (intro sum_list_mono) 
  then show "sum_list xs \<le> real (length xs) * Max (set xs)"
    by (simp add: sum_list_replicate map_replicate_const)
qed

lemma ideal_invariant:
  assumes "xs \<noteq> []"
  shows "the (min_v (ideal xs)) \<le> the (average (ideal xs))"
    and "the (average (ideal xs)) \<le> the (max_v (ideal xs))"
    and "1 \<le> count (ideal xs)"
proof -
  have n: "0 < real (length xs)" using assms by simp
  show "the (min_v (ideal xs)) \<le> the (average (ideal xs))"
    using sum_list_bounds(1) [OF assms] n
    by (simp add: ideal_def pos_le_divide_eq mult.commute)
  show "the (average (ideal xs)) \<le> the (max_v (ideal xs))"
    using sum_list_bounds(2) [OF assms] n
    by (simp add: ideal_def pos_divide_le_eq mult.commute)
  show "1 \<le> count (ideal xs)"
    using assms by (cases xs) (simp_all add: ideal_def)
qed

text \<open>
  Claim C2. After any updates and merges, \<open>min \<le> average \<le> max\<close> is claimed.
  Updating an empty \<open>Stats\<close> with \<open>0\<close> and then with \<open>3\<close> leaves
  \<open>min = 3\<close> and \<open>average = 3/2\<close>: the second update finds \<open>self.min = 0\<close>,
  which \<open>not self.min\<close> takes for unset, and overwrites it.
\<close>

theorem update_after_zero_breaks_min_le_average:
  "Stats_update_all Stats_init [0, 3] =
     (\<lparr> min_v = Some 3, max_v = Some 3, total = 3, count = 2, average = Some (3 / 2),
        std_deviation = Some (3 / 2), sum_of_squares = 9 \<rparr>, None)"
proof -
  have "sqrt (9 / 4) = 3 / 2" by (simp add: real_sqrt_divide)
  then show ?thesis by (simp add: stats_eval)
qed

subsection \<open>Commutativity of merge\<close>

text \<open>Where no sample is zero, the order of a merge does not matter.\<close>

lemma ideal_append_commute: "ideal (xs @ ys) = ideal (ys @ xs)"
  by (simp add: ideal_def Un_commute add.commute)

lemma merge_commutes_without_zero:
  assumes "xs \<noteq> []" and "ys \<noteq> []" and "0 \<notin> set xs" and "0 \<notin> set ys"
  shows "Stats_merge (fst (Stats_update_all Stats_init xs)) (fst (Stats_update_all Stats_init ys))
           = Stats_merge (fst (Stats_update_all Stats_init ys)) (fst (Stats_update_all Stats_init xs))"
  using assms by (simp add: update_all_ideal merge_ideal ideal_append_commute)

text \<open>
  Claim C3. \<open>merge\<close> is claimed to be commutative on statistics built from at
  least one sample. With \<open>A\<close> built from the sample \<open>2\<close> and \<open>B\<close> from the
  sample \<open>0\<close>, merging \<open>B\<close> into \<open>A\<close> gives \<open>min = 0\<close>, and merging
  \<open>A\<close> into \<open>B\<close> gives \<open>min = 2\<close>.
\<close>

theorem merge_not_commutative_on_zero_sample:
  "Stats_merge (fst (Stats_update Stats_init 2)) (fst (Stats_update Stats_init 0)) =
     (\<lparr> min_v = Some 0, max_v = Some 2, total = 2, count = 2, average = Some 1,
        std_deviation = Some 1, sum_of_squares = 4 \<rparr>, None)
   \<and> Stats_merge (fst (Stats_update Stats_init 0)) (fst (Stats_update Stats_init 2)) =
     (\<lparr> min_v = Some 2, max_v = Some 2, total = 2, count = 2, average = Some 1,
        std_deviation = Some 1, sum_of_squares = 4 \<rparr>, None)"
  by (simp add: stats_eval)

section \<open>Properties of the coordinator\<close>

subsection \<open>The handler client\_result\<close>

text \<open>
  What \<open>client_result\<close> does in a run, by the outcome of its two \<open>Stats\<close>
  calls. When both return, the count grows by one, the throughput enters its
  aggregate through \<open>update\<close>, the latency statistic enters its aggregate
  through \<open>merge\<close>, and the event is set when the new count equals the
  registered number of minions. When one of them raises, the handler ends with
  that exception: the count has grown, and the comparison of the count with
  the number of minions is not reached, so the event is left as it was.
\<close>

lemma client_result_when_stats_return:
  assumes "result_count self = Some c" and "minions self role = Some m"
    and "snd (Stats_update (throughput self) (r_throughput r)) = None"
    and "snd (Stats_merge (latency self) (r_latency r)) = None"
  shows "client_result role self r =
           (self\<lparr> result_count := Some (c + 1),
                  throughput := fst (Stats_update (throughput self) (r_throughput r)),
                  latency := fst (Stats_merge (latency self) (r_latency r)),
                  done_ev := (done_ev self \<or> c + 1 = m) \<rparr>, None)"
  using assms
  by (cases "Stats_update (throughput self) (r_throughput r)";
      cases "Stats_merge (latency self) (r_latency r)"; cases "c + 1 = m")
     (simp_all add: client_result_def Let_def)

lemma client_result_when_update_raises:
  assumes "result_count self = Some c"
    and "snd (Stats_update (throughput self) (r_throughput r)) = Some e"
  shows "client_result role self r =
           (self\<lparr> result_count := Some (c + 1),
                  throughput := fst (Stats_update (throughput self) (r_throughput r)) \<rparr>, Some e)"
  using assms
  by (cases "Stats_update (throughput self) (r_throughput r)")
     (simp add: client_result_def Let_def)

lemma client_result_when_merge_raises:
  assumes "result_count self = Some c"
    and "snd (Stats_update (throughput self) (r_throughput r)) = None"
    and "snd (Stats_merge (latency self) (r_latency r)) = Some e"
  shows "client_result role self r =
           (self\<lparr> result_count := Some (c + 1),
                  throughput := fst (Stats_update (throughput self) (r_throughput r)),
                  latency := fst (Stats_merge (latency self) (r_latency r)) \<rparr>, Some e)"
  using assms
  by (cases "Stats_update (throughput self) (r_throughput r)";
      cases "Stats_merge (latency self) (r_latency r)")
     (simp add: client_result_def Let_def)

lemmas controller_eval = Controller_init_def client_pong_def RPCController_dispatch_def
  NotifyController_dispatch_def deliver_def client_result_def RPC_CLIENT_def NOTIFIER_def
  unit_report_def

subsection \<open>Frame and trace lemmas\<close>

lemma client_pong_frame:
  "throughput (client_pong self kind) = throughput self"
  "latency (client_pong self kind) = latency self"
  "done_ev (client_pong self kind) = done_ev self"
  "result_count (client_pong self kind) = result_count self"
  "timeout (client_pong self kind) = timeout self"
  by (simp_all add: client_pong_def Let_def)

lemma Controller_init_frame:
  "throughput (foldl client_pong self kinds) = throughput self"
  "latency (foldl client_pong self kinds) = latency self"
  "done_ev (foldl client_pong self kinds) = done_ev self"
  "result_count (foldl client_pong self kinds) = result_count self"
  "timeout (foldl client_pong self kinds) = timeout self"
  by (induction kinds arbitrary: self) (simp_all add: client_pong_frame)

lemma deliver_simps:
  "deliver role self (Pong kind) = client_pong self kind"
  "deliver role self (Result r) = fst (client_result role self r)"
  by (simp_all add: deliver_def)

lemma deliver_before_first_run:
  assumes "result_count self = None"
  shows "result_count (deliver role self ev) = None"
    and "throughput (deliver role self ev) = throughput self"
    and "latency (deliver role self ev) = latency self"
  using assms by (cases ev; simp add: deliver_simps client_pong_frame client_result_def)+

lemma aggregates_empty_before_first_run:
  "result_count (foldl (deliver role) (Controller_init tmo kinds) evs) = None
   \<and> throughput (foldl (deliver role) (Controller_init tmo kinds) evs) = Stats_init
   \<and> latency (foldl (deliver role) (Controller_init tmo kinds) evs) = Stats_init"
proof (induction evs rule: rev_induct)
  case Nil
  show ?case by (simp add: Controller_init_def Controller_init_frame)
next
  case (snoc ev evs)
  then show ?case by (simp add: deliver_before_first_run)
qed

lemma client_result_done_mono:
  "done_ev self \<Longrightarrow> done_ev (fst (client_result role self r))"
  by (auto simp add: client_result_def Let_def split: option.splits prod.splits)

lemma deliver_done_mono: "done_ev self \<Longrightarrow> done_ev (deliver role self ev)"
  by (cases ev) (simp_all add: deliver_simps client_pong_frame client_result_done_mono)

lemma foldl_deliver_done_mono:
  "done_ev self \<Longrightarrow> done_ev (foldl (deliver role) self evs)"
  by (induction evs arbitrary: self) (simp_all add: deliver_done_mono)

lemma Event_wait_never_set:
  "\<not> done_ev (foldl (deliver role) self evs) \<Longrightarrow>
     Event_wait role tmo self evs =
       (foldl (deliver role) self evs, case tmo of None \<Rightarrow> None | Some t \<Rightarrow> Some False)"
proof (induction evs arbitrary: self)
  case Nil
  then show ?case by simp
next
  case (Cons ev evs)
  have "\<not> done_ev self"
    using Cons.prems foldl_deliver_done_mono [of self role "ev # evs"] by blast
  then show ?case using Cons by simp
qed

lemma client_result_sets_only_at_equality:
  assumes "\<not> done_ev self" and "done_ev (fst (client_result role self r))"
  shows "\<exists>m. minions self role = Some m \<and> result_count (fst (client_result role self r)) = Some m"
  using assms
  by (auto simp add: client_result_def Let_def split: option.splits prod.splits if_splits)

text \<open>
  A merge that raises, on an input the model can evaluate (an empty latency
  statistic merged into an empty aggregate divides by zero): the one expected
  report has been counted, and the event is not set.
\<close>

lemma raising_merge_skips_completion_check:
  "client_result RPC_CLIENT
     (fst (RPCController_dispatch (Controller_init None [RPC_CLIENT]) ''test_call'' 1 ''X'' False))
     malformed_report =
     (\<lparr> minions = [RPC_CLIENT \<mapsto> 1], total_minions = 1,
        throughput = \<lparr> min_v = Some 100, max_v = Some 100, total = 100, count = 1,
                       average = Some 100, std_deviation = Some 0, sum_of_squares = 10000 \<rparr>,
        latency = Stats_init\<lparr>min_v := Some 0, max_v := Some 0\<rparr>,
        done_ev = False, timeout = None, result_count = Some 1 \<rparr>, Some ZeroDivisionError)"
  by (simp add: controller_eval malformed_report_def stats_eval)

subsection \<open>Three reports with throughputs 100, 200 and 300\<close>

text \<open>
  The concrete scenario of claim C4: a controller that saw three clients
  receives three reports; the throughput aggregate ends with average 200,
  minimum 100, maximum 300 and count 3. (The general part of C4 fails on the
  code where a \<open>Stats\<close> call raises; see the lemmas on \<open>client_result\<close>
  above and the remark on rounding at the head of the theory.)
\<close>

lemma throughputs_100_200_300:
  "throughput (foldl (deliver RPC_CLIENT)
        (fst (RPCController_dispatch (Controller_init None [RPC_CLIENT, RPC_CLIENT, RPC_CLIENT])
               ''test_call'' 1 ''X'' False))
        [Result (unit_report 100), Result (unit_report 200), Result (unit_report 300)])
     = \<lparr> min_v = Some 100, max_v = Some 300, total = 600, count = 3, average = Some 200,
         std_deviation = Some (sqrt (20000 / 3)), sum_of_squares = 140000 \<rparr>"
  by (simp add: controller_eval stats_eval)

subsection \<open>Claims about the test run\<close>

text \<open>
  Claim C7. With no minion of the required role in the registry (the key is
  absent or its count is zero) either controller prints its no-clients line,
  returns \<open>-1\<close>, casts nothing and leaves the controller object, the received
  count and the aggregates included, as it was, whatever messages arrive.
\<close>

theorem no_workers_visible_returns_without_dispatch:
  "(minions self RPC_CLIENT = None \<or> minions self RPC_CLIENT = Some 0 \<longrightarrow>
      RPCController_run_test self meth cnt data verbose evs =
        \<lparr> ctl = self, printed = [Line ''No RPC clients visible''], casts = [],
          outcome = Returned (Some (- 1)) \<rparr>)
   \<and> (minions self NOTIFIER = None \<or> minions self NOTIFIER = Some 0 \<longrightarrow>
      NotifyController_run_notification_test self cnt data severity verbose evs =
        \<lparr> ctl = self, printed = [Line ''No notifier clients visible''], casts = [],
          outcome = Returned (Some (- 1)) \<rparr>)"
  by (simp add: RPCController_run_test_def NotifyController_run_notification_test_def)

theorem no_workers_visible_returns_without_dispatch_witness:
  "RPCController_run_test (Controller_init None []) ''test_call'' 1 ''X'' False
       [Result (unit_report 100)] =
     \<lparr> ctl = Controller_init None [], printed = [Line ''No RPC clients visible''], casts = [],
       outcome = Returned (Some (- 1)) \<rparr>
   \<and> NotifyController_run_notification_test (Controller_init None []) 1 ''X'' ''debug'' False
       [Result (unit_report 100)] =
     \<lparr> ctl = Controller_init None [], printed = [Line ''No notifier clients visible''],
       casts = [], outcome = Returned (Some (- 1)) \<rparr>
   \<and> RPCController_run_test
       ((Controller_init None [])\<lparr>minions := [RPC_CLIENT \<mapsto> 0]\<rparr>) ''test_cast'' 1 ''X'' False [] =
     \<lparr> ctl = (Controller_init None [])\<lparr>minions := [RPC_CLIENT \<mapsto> 0]\<rparr>,
       printed = [Line ''No RPC clients visible''], casts = [],
       outcome = Returned (Some (- 1)) \<rparr>"
proof -
  have a: "minions (Controller_init None []) RPC_CLIENT = None"
    by (simp add: Controller_init_def)
  have b: "minions (Controller_init None []) NOTIFIER = None"
    by (simp add: Controller_init_def)
  have c: "minions ((Controller_init None [])\<lparr>minions := [RPC_CLIENT \<mapsto> 0]\<rparr>) RPC_CLIENT = Some 0"
    by simp
  from a b c
    no_workers_visible_returns_without_dispatch
      [of "Controller_init None []" "''test_call''" 1 "''X''" False "[Result (unit_report 100)]"
          "''debug''"]
    no_workers_visible_returns_without_dispatch
      [of "(Controller_init None [])\<lparr>minions := [RPC_CLIENT \<mapsto> 0]\<rparr>" "''test_cast''" 1 "''X''"
          False "[]" "''debug''"]
  show ?thesis by simp
qed

text \<open>
  Claim C6. A run whose event is not set before the deadline is claimed to
  report a timeout and no aggregate. \<open>RPCController._run_test\<close> does: it
  prints the timed-out line only and returns. In
  \<open>NotifyController.run_notification_test\<close> the same branch evaluates the
  undefined name \<open>meth\<close>: with one notifier registered, a timeout of 5 and no
  report before the deadline the call raises \<open>NameError\<close> and prints nothing.
\<close>

theorem notify_timeout_raises_NameError:
  "outcome (NotifyController_run_notification_test (Controller_init (Some 5) [NOTIFIER])
              1 ''X'' ''debug'' False []) = Raised NameError
   \<and> printed (NotifyController_run_notification_test (Controller_init (Some 5) [NOTIFIER])
              1 ''X'' ''debug'' False []) = []
   \<and> outcome (RPCController_run_test (Controller_init (Some 5) [RPC_CLIENT])
              ''test_call'' 1 ''X'' False []) = Returned None
   \<and> printed (RPCController_run_test (Controller_init (Some 5) [RPC_CLIENT])
              ''test_call'' 1 ''X'' False []) = [Line ''test_call test timed out!'']"
  by (simp add: NotifyController_run_notification_test_def RPCController_run_test_def
      Controller_init_def client_pong_def RPCController_dispatch_def
      NotifyController_dispatch_def RPC_CLIENT_def NOTIFIER_def)

lemma dispatch_frame:
  "fst (RPCController_dispatch self meth cnt data verbose) =
     self\<lparr>result_count := Some 0, done_ev := False\<rparr>"
  "fst (NotifyController_dispatch self cnt data severity verbose) =
     self\<lparr>result_count := Some 0, done_ev := False\<rparr>"
  by (simp_all add: RPCController_dispatch_def NotifyController_dispatch_def Let_def)

lemma rpc_timeout_prints_no_aggregate:
  assumes "minions self RPC_CLIENT = Some m" and "m \<noteq> 0" and "timeout self = Some t"
    and "\<not> done_ev (foldl (deliver RPC_CLIENT)
                 (fst (RPCController_dispatch self meth cnt data verbose)) evs)"
  shows "printed (RPCController_run_test self meth cnt data verbose evs) =
           [Line (meth @ '' test timed out!'')]"
    and "outcome (RPCController_run_test self meth cnt data verbose evs) = Returned None"
proof -
  have w: "Event_wait RPC_CLIENT (Some t)
             (fst (RPCController_dispatch self meth cnt data verbose)) evs =
           (foldl (deliver RPC_CLIENT) (fst (RPCController_dispatch self meth cnt data verbose)) evs,
            Some False)"
    using Event_wait_never_set [OF assms(4), of "Some t"] by simp
  have t: "timeout (fst (RPCController_dispatch self meth cnt data verbose)) = Some t"
    using assms(3) by (simp add: dispatch_frame)
  show "printed (RPCController_run_test self meth cnt data verbose evs) =
           [Line (meth @ '' test timed out!'')]"
    using assms(1,2) w t
    by (cases "RPCController_dispatch self meth cnt data verbose")
       (simp add: RPCController_run_test_def)
  show "outcome (RPCController_run_test self meth cnt data verbose evs) = Returned None"
    using assms(1,2) w t
    by (cases "RPCController_dispatch self meth cnt data verbose")
       (simp add: RPCController_run_test_def)
qed

lemma notify_timeout_raises:
  assumes "minions self NOTIFIER = Some m" and "m \<noteq> 0" and "timeout self = Some t"
    and "\<not> done_ev (foldl (deliver NOTIFIER)
                 (fst (NotifyController_dispatch self cnt data severity verbose)) evs)"
  shows "printed (NotifyController_run_notification_test self cnt data severity verbose evs) = []"
    and "outcome (NotifyController_run_notification_test self cnt data severity verbose evs)
           = Raised NameError"
proof -
  have w: "Event_wait NOTIFIER (Some t)
             (fst (NotifyController_dispatch self cnt data severity verbose)) evs =
           (foldl (deliver NOTIFIER)
              (fst (NotifyController_dispatch self cnt data severity verbose)) evs,
            Some False)"
    using Event_wait_never_set [OF assms(4), of "Some t"] by simp
  have t: "timeout (fst (NotifyController_dispatch self cnt data severity verbose)) = Some t"
    using assms(3) by (simp add: dispatch_frame)
  show "printed (NotifyController_run_notification_test self cnt data severity verbose evs) = []"
    using assms(1,2) w t
    by (cases "NotifyController_dispatch self cnt data severity verbose")
       (simp add: NotifyController_run_notification_test_def)
  show "outcome (NotifyController_run_notification_test self cnt data severity verbose evs)
           = Raised NameError"
    using assms(1,2) w t
    by (cases "NotifyController_dispatch self cnt data severity verbose")
       (simp add: NotifyController_run_notification_test_def)
qed

lemma sqrt_10000: "sqrt 10000 = 100"
proof -
  have "sqrt ((100::real)\<^sup>2) = 100" by simp
  then show ?thesis by simp
qed

lemma first_run_ctl:
  "ctl first_run =
     \<lparr> minions = [RPC_CLIENT \<mapsto> 1], total_minions = 1,
       throughput = \<lparr> min_v = Some 100, max_v = Some 100, total = 100, count = 1,
                      average = Some 100, std_deviation = Some 0, sum_of_squares = 10000 \<rparr>,
       latency = \<lparr> min_v = Some 1, max_v = Some 1, total = 1, count = 1, average = Some 1,
                   std_deviation = Some 0, sum_of_squares = 1 \<rparr>,
       done_ev = True, timeout = Some 5, result_count = Some 1 \<rparr>"
  by (simp add: first_run_def RPCController_run_test_def controller_eval stats_eval
      print_stats_def Stats_str_def)

text \<open>
  Claim C5, as stated, fails: the dispatch does not reset the aggregates. On a
  controller that has completed one run (one report, throughput 100), the
  dispatch of a second run leaves the throughput aggregate as the first run
  left it, and the second run (one report, throughput 300) prints a throughput
  line averaged over both runs (min 100, max 300, average 200) next to
  ``averaged over 1 client''.
\<close>

theorem second_run_reports_first_run_samples:
  "throughput (fst (RPCController_dispatch (ctl first_run) ''test_call'' 1 ''X'' False))
     \<noteq> Stats_init
   \<and> printed second_run =
       [Line [CHR 0x0A], LatencyLine (1, 1, 1, 0), ThroughputLine (100, 300, 200, 100),
        AveragedOver 1]"
  by (simp add: second_run_def first_run_ctl RPCController_run_test_def controller_eval
      stats_eval print_stats_def Stats_str_def py_int_def sqrt_10000)

text \<open>
  Claim C5, amended. On every dispatch with at least one visible worker,
  before the cast, the controller sets the received count to 0 and clears the
  event, and changes nothing else: the two aggregates are not reset. They are
  created empty by the constructor and no message handled before the first
  dispatch changes them, so they are empty at the first dispatch of a
  controller.
\<close>

theorem dispatch_resets_count_and_event_only:
  "(minions self RPC_CLIENT = Some m \<longrightarrow> m \<noteq> 0 \<longrightarrow>
      casts (RPCController_run_test self meth cnt data verbose evs) =
        [TestRequest meth cnt data None verbose]
      \<and> ctl (RPCController_run_test self meth cnt data verbose []) =
        self\<lparr>result_count := Some 0, done_ev := False\<rparr>)
   \<and> (minions self NOTIFIER = Some m \<longrightarrow> m \<noteq> 0 \<longrightarrow>
      casts (NotifyController_run_notification_test self cnt data severity verbose evs) =
        [TestRequest ''test_notify'' cnt data (Some severity) verbose]
      \<and> ctl (NotifyController_run_notification_test self cnt data severity verbose []) =
        self\<lparr>result_count := Some 0, done_ev := False\<rparr>)
   \<and> RPCController_dispatch self meth cnt data verbose =
        (self\<lparr>result_count := Some 0, done_ev := False\<rparr>,
         [TestRequest meth cnt data None verbose])
   \<and> NotifyController_dispatch self cnt data severity verbose =
        (self\<lparr>result_count := Some 0, done_ev := False\<rparr>,
         [TestRequest ''test_notify'' cnt data (Some severity) verbose])
   \<and> throughput (foldl (deliver role) (Controller_init tmo kinds) pre) = Stats_init
   \<and> latency (foldl (deliver role) (Controller_init tmo kinds) pre) = Stats_init"
proof -
  have d1: "RPCController_dispatch self meth cnt data verbose =
        (self\<lparr>result_count := Some 0, done_ev := False\<rparr>,
         [TestRequest meth cnt data None verbose])"
    by (simp add: RPCController_dispatch_def)
  have d2: "NotifyController_dispatch self cnt data severity verbose =
        (self\<lparr>result_count := Some 0, done_ev := False\<rparr>,
         [TestRequest ''test_notify'' cnt data (Some severity) verbose])"
    by (simp add: NotifyController_dispatch_def)
  have c1: "casts (RPCController_run_test self meth cnt data verbose evs) =
        [TestRequest meth cnt data None verbose]"
    if "minions self RPC_CLIENT = Some m" and "m \<noteq> 0"
    using that
    by (simp add: RPCController_run_test_def d1 split: prod.splits option.splits bool.splits)
  have c2: "casts (NotifyController_run_notification_test self cnt data severity verbose evs) =
        [TestRequest ''test_notify'' cnt data (Some severity) verbose]"
    if "minions self NOTIFIER = Some m" and "m \<noteq> 0"
    using that
    by (simp add: NotifyController_run_notification_test_def d2
        split: prod.splits option.splits bool.splits)
  have s1: "ctl (RPCController_run_test self meth cnt data verbose []) =
        self\<lparr>result_count := Some 0, done_ev := False\<rparr>"
    if "minions self RPC_CLIENT = Some m" and "m \<noteq> 0"
    using that
    by (simp add: RPCController_run_test_def d1 split: option.splits)
  have s2: "ctl (NotifyController_run_notification_test self cnt data severity verbose []) =
        self\<lparr>result_count := Some 0, done_ev := False\<rparr>"
    if "minions self NOTIFIER = Some m" and "m \<noteq> 0"
    using that
    by (simp add: NotifyController_run_notification_test_def d2 split: option.splits)
  show ?thesis
    using d1 d2 c1 c2 s1 s2 aggregates_empty_before_first_run [of role tmo kinds pre]
    by blast
qed

theorem dispatch_resets_count_and_event_only_witness:
  "casts (RPCController_run_test
            ((Controller_init (Some 5) [RPC_CLIENT, NOTIFIER])\<lparr>result_count := Some 7, done_ev := True\<rparr>)
            ''test_call'' 1 ''X'' False [Result (unit_report 100)])
     = [TestRequest ''test_call'' 1 ''X'' None False]
   \<and> ctl (RPCController_run_test
            ((Controller_init (Some 5) [RPC_CLIENT, NOTIFIER])\<lparr>result_count := Some 7, done_ev := True\<rparr>)
            ''test_call'' 1 ''X'' False [])
     = (Controller_init (Some 5) [RPC_CLIENT, NOTIFIER])\<lparr>result_count := Some 0, done_ev := False\<rparr>
   \<and> casts (NotifyController_run_notification_test
            ((Controller_init (Some 5) [RPC_CLIENT, NOTIFIER])\<lparr>result_count := Some 7, done_ev := True\<rparr>)
            1 ''X'' ''debug'' False [Result (unit_report 100)])
     = [TestRequest ''test_notify'' 1 ''X'' (Some ''debug'') False]
   \<and> ctl (NotifyController_run_notification_test
            ((Controller_init (Some 5) [RPC_CLIENT, NOTIFIER])\<lparr>result_count := Some 7, done_ev := True\<rparr>)
            1 ''X'' ''debug'' False [])
     = (Controller_init (Some 5) [RPC_CLIENT, NOTIFIER])\<lparr>result_count := Some 0, done_ev := False\<rparr>"
proof -
  let ?s = "(Controller_init (Some 5) [RPC_CLIENT, NOTIFIER])\<lparr>result_count := Some 7, done_ev := True\<rparr>"
  have m1: "minions ?s RPC_CLIENT = Some 1"
    by (simp add: Controller_init_def client_pong_def RPC_CLIENT_def NOTIFIER_def)
  have m2: "minions ?s NOTIFIER = Some 1"
    by (simp add: Controller_init_def client_pong_def RPC_CLIENT_def NOTIFIER_def)
  have nz: "(1::int) \<noteq> 0" by simp
  from m1 m2 nz
    dispatch_resets_count_and_event_only
      [of ?s 1 "''test_call''" 1 "''X''" False "[Result (unit_report 100)]" "''debug''"]
  show ?thesis by simp
qed

section \<open>Properties of the minion loop\<close>










section \<open>The completion event\<close>

lemma deliver_sets_only_at_equality:
  assumes "\<not> done_ev self" and "done_ev (deliver role self ev)"
  shows "\<exists>r m. ev = Result r \<and> minions self role = Some m
           \<and> result_count (deliver role self ev) = Some m"
proof (cases ev)
  case (Pong kind)
  with assms show ?thesis by (simp add: deliver_simps client_pong_frame)
next
  case (Result r)
  with assms client_result_sets_only_at_equality [of self role r]
  show ?thesis by (simp add: deliver_simps)
qed

lemma never_equal_never_set:
  "\<not> done_ev self \<Longrightarrow> never_equal role self evs \<Longrightarrow>
     \<not> done_ev (foldl (deliver role) self evs)"
proof (induction evs arbitrary: self)
  case Nil
  then show ?case by simp
next
  case (Cons ev evs)
  have n: "never_equal role (deliver role self ev) evs"
    using Cons.prems(2) by (cases ev) simp_all
  have "\<not> done_ev (deliver role self ev)"
  proof
    assume "done_ev (deliver role self ev)"
    from deliver_sets_only_at_equality [OF Cons.prems(1) this]
    obtain r m where "ev = Result r" and "minions self role = Some m"
      and "result_count (deliver role self ev) = Some m" by blast
    with Cons.prems(2) show False by simp
  qed
  from Cons.IH [OF this n] show ?case by simp
qed

text \<open>
  Claim C10, amended. In every test run the completion event is set only at the
  instant a report's handler finds the received count equal to the number of
  minions then recorded for the role. If no report leaves the count equal to
  the number recorded when it is handled (for example because a late pong has
  raised the recorded number), the event is never set, a wait without timeout
  never returns, and so neither controller's test run returns when no timeout
  is configured.
\<close>

theorem event_set_only_by_a_report_that_finds_equality:
  "(\<not> done_ev self \<longrightarrow> done_ev (deliver role self ev) \<longrightarrow>
      (\<exists>r m. ev = Result r \<and> minions self role = Some m
         \<and> result_count (deliver role self ev) = Some m))
   \<and> (\<not> done_ev self \<longrightarrow> never_equal role self evs \<longrightarrow>
        \<not> done_ev (foldl (deliver role) self evs)
        \<and> snd (Event_wait role None self evs) = None)
   \<and> (minions start RPC_CLIENT = Some m0 \<longrightarrow> m0 \<noteq> 0 \<longrightarrow> timeout start = None \<longrightarrow>
        never_equal RPC_CLIENT (fst (RPCController_dispatch start meth cnt data verbose)) evs \<longrightarrow>
        outcome (RPCController_run_test start meth cnt data verbose evs) = Blocked)
   \<and> (minions start NOTIFIER = Some m0 \<longrightarrow> m0 \<noteq> 0 \<longrightarrow> timeout start = None \<longrightarrow>
        never_equal NOTIFIER (fst (NotifyController_dispatch start cnt data severity verbose)) evs \<longrightarrow>
        outcome (NotifyController_run_notification_test start cnt data severity verbose evs)
          = Blocked)"
proof (intro conjI impI)
  assume "\<not> done_ev self" and "done_ev (deliver role self ev)"
  then show "\<exists>r m. ev = Result r \<and> minions self role = Some m
         \<and> result_count (deliver role self ev) = Some m"
    by (rule deliver_sets_only_at_equality)
next
  assume a: "\<not> done_ev self" "never_equal role self evs"
  show n: "\<not> done_ev (foldl (deliver role) self evs)"
    by (rule never_equal_never_set [OF a])
  show "snd (Event_wait role None self evs) = None"
    by (simp add: Event_wait_never_set [OF n])
next
  let ?d = "fst (RPCController_dispatch start meth cnt data verbose)"
  assume v: "minions start RPC_CLIENT = Some m0" "m0 \<noteq> 0" and t: "timeout start = None"
    and a: "never_equal RPC_CLIENT ?d evs"
  have "\<not> done_ev ?d" by (simp add: dispatch_frame)
  then have n: "\<not> done_ev (foldl (deliver RPC_CLIENT) ?d evs)"
    using a by (rule never_equal_never_set)
  have w: "Event_wait RPC_CLIENT None ?d evs = (foldl (deliver RPC_CLIENT) ?d evs, None)"
    using Event_wait_never_set [OF n, of None] by simp
  have tt: "timeout ?d = None" using t by (simp add: dispatch_frame)
  show "outcome (RPCController_run_test start meth cnt data verbose evs) = Blocked"
    using v w tt
    by (cases "RPCController_dispatch start meth cnt data verbose")
       (simp add: RPCController_run_test_def)
next
  let ?d = "fst (NotifyController_dispatch start cnt data severity verbose)"
  assume v: "minions start NOTIFIER = Some m0" "m0 \<noteq> 0" and t: "timeout start = None"
    and a: "never_equal NOTIFIER ?d evs"
  have "\<not> done_ev ?d" by (simp add: dispatch_frame)
  then have n: "\<not> done_ev (foldl (deliver NOTIFIER) ?d evs)"
    using a by (rule never_equal_never_set)
  have w: "Event_wait NOTIFIER None ?d evs = (foldl (deliver NOTIFIER) ?d evs, None)"
    using Event_wait_never_set [OF n, of None] by simp
  have tt: "timeout ?d = None" using t by (simp add: dispatch_frame)
  show "outcome (NotifyController_run_notification_test start cnt data severity verbose evs)
          = Blocked"
    using v w tt
    by (cases "NotifyController_dispatch start cnt data severity verbose")
       (simp add: NotifyController_run_notification_test_def)
qed

theorem event_set_only_by_a_report_that_finds_equality_witness:
  "(\<exists>r m. Result (unit_report 100) = Result r
       \<and> minions (fst (RPCController_dispatch (Controller_init None [RPC_CLIENT, NOTIFIER])
                         ''test_call'' 1 ''X'' False)) RPC_CLIENT = Some m
       \<and> result_count (deliver RPC_CLIENT
            (fst (RPCController_dispatch (Controller_init None [RPC_CLIENT, NOTIFIER])
                    ''test_call'' 1 ''X'' False))
            (Result (unit_report 100))) = Some m)
   \<and> snd (Event_wait RPC_CLIENT None
            (fst (RPCController_dispatch (Controller_init None [RPC_CLIENT, NOTIFIER])
                    ''test_call'' 1 ''X'' False))
            [Pong RPC_CLIENT, Pong NOTIFIER, Result (unit_report 100)]) = None
   \<and> outcome (RPCController_run_test (Controller_init None [RPC_CLIENT, NOTIFIER])
                ''test_call'' 1 ''X'' False [Pong RPC_CLIENT, Pong NOTIFIER, Result (unit_report 100)])
       = Blocked
   \<and> outcome (NotifyController_run_notification_test (Controller_init None [RPC_CLIENT, NOTIFIER])
                1 ''X'' ''debug'' False [Pong RPC_CLIENT, Pong NOTIFIER, Result (unit_report 100)])
       = Blocked"
proof -
  let ?c = "Controller_init None [RPC_CLIENT, NOTIFIER]"
  let ?d = "fst (RPCController_dispatch ?c ''test_call'' 1 ''X'' False)"
  let ?n = "fst (NotifyController_dispatch ?c 1 ''X'' ''debug'' False)"
  let ?evs = "[Pong RPC_CLIENT, Pong NOTIFIER, Result (unit_report 100)]"
  have c: "?c = \<lparr> minions = [RPC_CLIENT \<mapsto> 1, NOTIFIER \<mapsto> 1], total_minions = 2,
        throughput = Stats_init, latency = Stats_init,
        done_ev = False, timeout = None, result_count = None \<rparr>"
    by (simp add: Controller_init_def client_pong_def RPC_CLIENT_def NOTIFIER_def)
  have d: "?d = \<lparr> minions = [RPC_CLIENT \<mapsto> 1, NOTIFIER \<mapsto> 1], total_minions = 2,
        throughput = Stats_init, latency = Stats_init,
        done_ev = False, timeout = None, result_count = Some 0 \<rparr>"
    unfolding c by (simp add: RPCController_dispatch_def)
  have n: "?n = \<lparr> minions = [RPC_CLIENT \<mapsto> 1, NOTIFIER \<mapsto> 1], total_minions = 2,
        throughput = Stats_init, latency = Stats_init,
        done_ev = False, timeout = None, result_count = Some 0 \<rparr>"
    unfolding c by (simp add: NotifyController_dispatch_def)
  have a1: "\<not> done_ev ?d" unfolding d by simp
  have a2: "done_ev (deliver RPC_CLIENT ?d (Result (unit_report 100)))"
    unfolding d
    by (simp add: deliver_simps client_result_def unit_report_def stats_eval
        RPC_CLIENT_def NOTIFIER_def)
  have b: "never_equal RPC_CLIENT ?d ?evs"
    unfolding d
    by (simp add: deliver_simps client_pong_def client_result_def unit_report_def stats_eval
        RPC_CLIENT_def NOTIFIER_def)
  have b': "never_equal NOTIFIER ?n ?evs"
    unfolding n
    by (simp add: deliver_simps client_pong_def client_result_def unit_report_def stats_eval
        RPC_CLIENT_def NOTIFIER_def)
  have m1: "minions ?c RPC_CLIENT = Some 1" unfolding c by (simp add: RPC_CLIENT_def NOTIFIER_def)
  have m2: "minions ?c NOTIFIER = Some 1" unfolding c by (simp add: RPC_CLIENT_def NOTIFIER_def)
  have nz: "(1::int) \<noteq> 0" by simp
  have t: "timeout ?c = None" unfolding c by simp
  note th = event_set_only_by_a_report_that_finds_equality
    [of ?d RPC_CLIENT "Result (unit_report 100)" ?evs ?c 1 "''test_call''" 1 "''X''" False
        "''debug''"]
  from th a1 a2 have r1: "\<exists>r m. Result (unit_report 100) = Result r
       \<and> minions ?d RPC_CLIENT = Some m
       \<and> result_count (deliver RPC_CLIENT ?d (Result (unit_report 100))) = Some m"
    by blast
  from th a1 b have r2: "snd (Event_wait RPC_CLIENT None ?d ?evs) = None" by blast
  from th m1 nz t b
  have r3: "outcome (RPCController_run_test ?c ''test_call'' 1 ''X'' False ?evs) = Blocked"
    by blast
  from th m2 nz t b'
  have r4: "outcome (NotifyController_run_notification_test ?c 1 ''X'' ''debug'' False ?evs)
              = Blocked"
    by blast
  from r1 r2 r3 r4 show ?thesis by blast
qed

text \<open>
  Claim C10, as stated, fails on its own example. When more reports arrive than
  minions were recorded, the count equals the recorded number at one of them,
  that report sets the event and \<open>_run_test\<close> returns, with or without a
  timeout: with one client recorded and three reports the run completes, and
  after all three reports the event is set although the count is 3.
\<close>

theorem more_reports_than_minions_complete_the_run:
  "outcome (RPCController_run_test (Controller_init None [RPC_CLIENT]) ''test_call'' 1 ''X'' False
              [Result (unit_report 100), Result (unit_report 200), Result (unit_report 300)])
     = Returned None
   \<and> done_ev (foldl (deliver RPC_CLIENT)
        (fst (RPCController_dispatch (Controller_init None [RPC_CLIENT]) ''test_call'' 1 ''X'' False))
        [Result (unit_report 100), Result (unit_report 200), Result (unit_report 300)])
   \<and> result_count (foldl (deliver RPC_CLIENT)
        (fst (RPCController_dispatch (Controller_init None [RPC_CLIENT]) ''test_call'' 1 ''X'' False))
        [Result (unit_report 100), Result (unit_report 200), Result (unit_report 300)])
     = Some 3"
  by (simp add: RPCController_run_test_def controller_eval stats_eval print_stats_def
      Stats_str_def)

end
